theory Spec2Isabelle
  imports Main "HOL-Library.Word"
begin

section \<open>The command channel: \<open>FRIConnection\<close>\<close>

subsection \<open>Data\<close>

type_synonym byte = "8 word"

text \<open>
  The enumerations \<open>CommandState\<close>, \<open>CommandID\<close> and \<open>CommandSuccess\<close> are declared in
  \<open>fri_connection.hpp\<close>, with \<open>std::uint8_t\<close> as the type of their values. The code only
  compares these values and casts received bytes to them, so the model takes the
  enumerators as a parameter: one byte for each enumerator that
  \<open>fri_connection.cpp\<close> names. The five \<open>CommandState\<close> enumerators are the case
  labels of one \<open>switch\<close>, hence pairwise distinct in every program that compiles.
\<close>

record wire_constants =
  ACCEPTED :: byte
  REJECTED :: byte
  UNKNOWN :: byte
  ERROR_CONTROL_ENDED :: byte
  ERROR_FRI_ENDED :: byte
  CONNECT :: byte
  DISCONNECT :: byte
  SUCCESS :: byte
  NO_SUCCESS :: byte

definition state_tags :: "wire_constants \<Rightarrow> byte list" where
  "state_tags K =
     [ACCEPTED K, REJECTED K, UNKNOWN K, ERROR_CONTROL_ENDED K, ERROR_FRI_ENDED K]"

definition switch_labels_ok :: "wire_constants \<Rightarrow> bool" where
  "switch_labels_ok K = distinct (state_tags K)"

text \<open>The object behind \<open>tcp_connection_\<close>: what the constructor was given.\<close>

record TCPConnection =
  server_addr :: string
  server_port :: int

text \<open>
  What the channel does to the outside, in the order it does it: calls on the owned
  \<open>TCPConnection\<close>, \<open>cv_.notify_one()\<close>, and the detached threads that run one of the
  two registered error handlers.
\<close>

datatype event =
    TransportOpened string int
  | TransportOpenFailed string int
  | TransportDestroyed
  | ConnectionClosed
  | ByteSent byte
  | BytesSent "byte list"
  | NotifyOne
  | ControlEndedHandlerRun
  | FRIEndedHandlerRun

text \<open>
  The members of the class, named as in the source without the trailing underscore
  (\<open>tcp_connection_\<close> is \<open>tcp_connection\<close>, and so on), and the trace of what the
  object has done so far. A null \<open>std::unique_ptr\<close> is \<open>None\<close>.
\<close>

record FRIConnection =
  tcp_connection :: "TCPConnection option"
  last_command_state :: byte
  last_command_id :: byte
  last_command_success :: byte
  answer_wanted :: bool
  answer_received :: bool
  trace :: "event list"

text \<open>
  Undefined behaviour and not returning are values of the model: reading a
  \<open>std::vector\<close> past its end, calling through a null \<open>tcp_connection_\<close>, and a
  \<open>cv_.wait\<close> that no received chunk ever ends.
\<close>

datatype fault = OutOfBoundsRead | NullTransport | WaitNeverResolved

text \<open>The constructor's member initialisers.\<close>

definition FRIConnection_init :: "wire_constants \<Rightarrow> FRIConnection" where
  "FRIConnection_init K =
     \<lparr>tcp_connection = None, last_command_state = ACCEPTED K,
      last_command_id = CONNECT K, last_command_success = NO_SUCCESS K,
      answer_wanted = False, answer_received = False, trace = []\<rparr>"

subsection \<open>Observations on a trace\<close>

fun transmitted :: "event list \<Rightarrow> byte list list" where
  "transmitted [] = []"
| "transmitted (ByteSent b # es) = [b] # transmitted es"
| "transmitted (BytesSent bs # es) = bs # transmitted es"
| "transmitted (e # es) = transmitted es"

fun open_attempts :: "event list \<Rightarrow> (string \<times> int) list" where
  "open_attempts [] = []"
| "open_attempts (TransportOpened a p # es) = (a, p) # open_attempts es"
| "open_attempts (TransportOpenFailed a p # es) = (a, p) # open_attempts es"
| "open_attempts (e # es) = open_attempts es"

fun notifications :: "event list \<Rightarrow> nat" where
  "notifications [] = 0"
| "notifications (NotifyOne # es) = Suc (notifications es)"
| "notifications (e # es) = notifications es"

fun closings :: "event list \<Rightarrow> event list" where
  "closings [] = []"
| "closings (ConnectionClosed # es) = ConnectionClosed # closings es"
| "closings (TransportDestroyed # es) = TransportDestroyed # closings es"
| "closings (e # es) = closings es"

subsection \<open>Operations\<close>

definition emit :: "event list \<Rightarrow> FRIConnection \<Rightarrow> FRIConnection" where
  "emit es s = s\<lparr>trace := trace s @ es\<rparr>"

text \<open>\<open>data[i]\<close> on a \<open>std::vector\<close>: defined only for \<open>i < data.size()\<close>.\<close>

definition subscript :: "byte list \<Rightarrow> nat \<Rightarrow> fault + byte" where
  "subscript data i = (if i < length data then Inr (data ! i) else Inl OutOfBoundsRead)"

definition isConnected :: "FRIConnection \<Rightarrow> bool" where
  "isConnected s = (if tcp_connection s \<noteq> None then True else False)"

definition assertLastCommandSuccess :: "wire_constants \<Rightarrow> FRIConnection \<Rightarrow> byte \<Rightarrow> bool" where
  "assertLastCommandSuccess K s command_id =
     (if last_command_state s = ACCEPTED K \<and> last_command_id s = command_id \<and>
         last_command_success s = SUCCESS K
      then True else False)"

text \<open>
  \<open>handleReceivedTCPData\<close>, the \<open>switch\<close> on \<open>data[0]\<close> read as a chain of
  comparisons in the order of its labels. The two empty \<open>if (data.size() < n)\<close>
  statements do nothing, so the subscripts that follow them are reached with any size.
  \<open>pthread_create\<close> followed by \<open>pthread_detach\<close> is the event that the handler runs.
\<close>

definition handleReceivedTCPData ::
    "wire_constants \<Rightarrow> FRIConnection \<Rightarrow> byte list \<Rightarrow> fault + FRIConnection" where
  "handleReceivedTCPData K s data =
     (if length data = 0 then Inr s
      else if data ! 0 = ACCEPTED K then
        (case subscript data 1 of
           Inl e \<Rightarrow> Inl e
         | Inr id_byte \<Rightarrow>
             (case subscript data 2 of
                Inl e \<Rightarrow> Inl e
              | Inr success_byte \<Rightarrow>
                  Inr (emit [NotifyOne]
                        (s\<lparr>last_command_state := ACCEPTED K, last_command_id := id_byte,
                           last_command_success := success_byte,
                           answer_received := True\<rparr>))))
      else if data ! 0 = REJECTED K then
        (case subscript data 1 of
           Inl e \<Rightarrow> Inl e
         | Inr id_byte \<Rightarrow>
             Inr (emit [NotifyOne]
                   (s\<lparr>last_command_state := REJECTED K, last_command_id := id_byte,
                      answer_received := True\<rparr>)))
      else if data ! 0 = UNKNOWN K then
        Inr (emit [NotifyOne] (s\<lparr>last_command_state := UNKNOWN K, answer_received := True\<rparr>))
      else if data ! 0 = ERROR_CONTROL_ENDED K then
        (if answer_wanted s then
           Inr (emit [NotifyOne]
                 (s\<lparr>last_command_state := ERROR_CONTROL_ENDED K, answer_received := True\<rparr>))
         else Inr (emit [ControlEndedHandlerRun] s))
      else if data ! 0 = ERROR_FRI_ENDED K then
        (if answer_wanted s then
           Inr (emit [NotifyOne]
                 (s\<lparr>last_command_state := ERROR_FRI_ENDED K, answer_received := True\<rparr>))
         else Inr (emit [FRIEndedHandlerRun] s))
      else
        Inr (emit [NotifyOne] (s\<lparr>last_command_state := UNKNOWN K, answer_received := True\<rparr>)))"

text \<open>
  \<open>cv_.wait(lk, [this] {return answer_received_;})\<close>. The chunks are those the
  transport hands to \<open>handleReceivedTCPData\<close> from now on, in order. The wait is over
  as soon as the flag is set, also when it was set before the wait began; the chunks
  not yet delivered are returned. When the chunks run out first, the caller stays
  blocked.
\<close>

fun cv_wait ::
    "wire_constants \<Rightarrow> FRIConnection \<Rightarrow> byte list list \<Rightarrow>
     fault + (FRIConnection \<times> byte list list)" where
  "cv_wait K s [] = (if answer_received s then Inr (s, []) else Inl WaitNeverResolved)"
| "cv_wait K s (data # rest) =
     (if answer_received s then Inr (s, data # rest)
      else (case handleReceivedTCPData K s data of
              Inl e \<Rightarrow> Inl e
            | Inr s' \<Rightarrow> cv_wait K s' rest))"

text \<open>What both overloads of \<open>sendCommandAndWait\<close> do after the send.\<close>

definition await_answer ::
    "wire_constants \<Rightarrow> FRIConnection \<Rightarrow> byte \<Rightarrow> byte list list \<Rightarrow>
     fault + (bool \<times> FRIConnection \<times> byte list list)" where
  "await_answer K s command_id chunks =
     (case cv_wait K s chunks of
        Inl e \<Rightarrow> Inl e
      | Inr (w, rest) \<Rightarrow>
          (let s' = w\<lparr>answer_received := False, answer_wanted := False\<rparr>
           in Inr (assertLastCommandSuccess K s' command_id, s', rest)))"

definition sendCommandAndWait ::
    "wire_constants \<Rightarrow> FRIConnection \<Rightarrow> byte \<Rightarrow> byte list list \<Rightarrow>
     fault + (bool \<times> FRIConnection \<times> byte list list)" where
  "sendCommandAndWait K s command_id chunks =
     (let s1 = s\<lparr>answer_wanted := True\<rparr>
      in case tcp_connection s1 of
           None \<Rightarrow> Inl NullTransport
         | Some c \<Rightarrow> await_answer K (emit [ByteSent command_id] s1) command_id chunks)"

definition sendCommandAndWait_data ::
    "wire_constants \<Rightarrow> FRIConnection \<Rightarrow> byte \<Rightarrow> byte list \<Rightarrow> byte list list \<Rightarrow>
     fault + (bool \<times> FRIConnection \<times> byte list list)" where
  "sendCommandAndWait_data K s command_id command_data chunks =
     (let msg = [command_id] @ command_data;
          s1 = s\<lparr>answer_wanted := True\<rparr>
      in case tcp_connection s1 of
           None \<Rightarrow> Inl NullTransport
         | Some c \<Rightarrow> await_answer K (emit [BytesSent msg] s1) command_id chunks)"

text \<open>
  \<open>connect\<close>. Whether the constructor of \<open>TCPConnection\<close> throws is decided outside
  this file, so it is the input \<open>opened\<close>. \<open>std::make_unique\<close> builds the new object
  before the assignment destroys the one owned so far; when the constructor throws,
  the handler resets the pointer, which destroys the one owned so far as well.
\<close>

definition release :: "FRIConnection \<Rightarrow> FRIConnection" where
  "release s =
     (case tcp_connection s of
        None \<Rightarrow> s
      | Some c \<Rightarrow> emit [TransportDestroyed] (s\<lparr>tcp_connection := None\<rparr>))"

definition connect ::
    "wire_constants \<Rightarrow> FRIConnection \<Rightarrow> string \<Rightarrow> int \<Rightarrow> bool \<Rightarrow> byte list list \<Rightarrow>
     fault + (bool \<times> FRIConnection \<times> byte list list)" where
  "connect K s addr port opened chunks =
     (let s1 = (if opened
                then (release (emit [TransportOpened addr port] s))
                       \<lparr>tcp_connection := Some \<lparr>server_addr = addr, server_port = port\<rparr>\<rparr>
                else release (emit [TransportOpenFailed addr port] s))
      in if \<not> isConnected s1 then Inr (False, s1, chunks)
         else sendCommandAndWait K s1 (CONNECT K) chunks)"

definition disconnect ::
    "wire_constants \<Rightarrow> FRIConnection \<Rightarrow> byte list list \<Rightarrow>
     fault + (bool \<times> FRIConnection \<times> byte list list)" where
  "disconnect K s chunks =
     (if tcp_connection s = None then Inr (True, s, chunks)
      else (case sendCommandAndWait K s (DISCONNECT K) chunks of
              Inl e \<Rightarrow> Inl e
            | Inr (ok, s', rest) \<Rightarrow>
                if ok = True
                then (case tcp_connection s' of
                        None \<Rightarrow> Inl NullTransport
                      | Some c \<Rightarrow> Inr (True, release (emit [ConnectionClosed] s'), rest))
                else Inr (False, s', rest)))"

definition connectionLostCallback ::
    "wire_constants \<Rightarrow> FRIConnection \<Rightarrow> string \<Rightarrow> int \<Rightarrow> bool \<Rightarrow> byte list list \<Rightarrow>
     fault + (FRIConnection \<times> byte list list)" where
  "connectionLostCallback K s addr port opened chunks =
     (case connect K s addr port opened chunks of
        Inl e \<Rightarrow> Inl e
      | Inr (ok, s', rest) \<Rightarrow> Inr (s', rest))"

section \<open>The datagram server: \<open>UDPServer\<close>\<close>

subsection \<open>Data\<close>

type_synonym endpoint = "string \<times> nat"

text \<open>
  \<open>struct UDPServerData\<close> of \<open>generic_udp_server.h\<close>; \<open>p_data\<close> points into the
  receive buffer, so its value here is what the buffer holds.
\<close>

record UDPServerData =
  port_number :: nat
  p_data :: string
  bytes_transferred :: int

definition UDPServerData_init :: UDPServerData where
  "UDPServerData_init = \<lparr>port_number = 0, p_data = [], bytes_transferred = 0\<rparr>"

text \<open>
  One completed receive, as the socket reports it: whether it carries an error, who
  sent it and what was received; and whether sending the reply to it will complete
  with an error.
\<close>

record datagram =
  transport_error :: bool
  sender :: endpoint
  payload :: string
  send_error :: bool

text \<open>
  The members of \<open>class UDPServer\<close> that hold data (\<open>remote_endpoint_\<close>,
  \<open>receive_buffer_\<close>, \<open>server_data_\<close>, \<open>initialized_\<close>, written without the trailing
  underscore), whether an asynchronous receive is armed and whether a send is in
  flight, and the log of the calls made to the consumer and of the replies sent.
  \<open>p_interface_\<close> is the function \<open>callback\<close> that the operations take.
\<close>

record UDPServer =
  remote_endpoint :: endpoint
  receive_buffer :: string
  server_data :: UDPServerData
  initialized :: bool
  receive_armed :: bool
  send_in_flight :: bool
  callback_log :: "UDPServerData list"
  reply_log :: "(endpoint \<times> string) list"

subsection \<open>Operations\<close>

text \<open>
  Modelled from the spec: the body of \<open>UDPServer::startAsynchronousReceive\<close> is in
  \<open>generic_udp_server.cpp\<close>, which is missing; the header only declares it. The spec
  has the receive cycle await a datagram asynchronously, and repeat while the server
  is initialized; a server whose bind failed performs no I/O.
\<close>

definition startAsynchronousReceive :: "UDPServer \<Rightarrow> UDPServer" where
  "startAsynchronousReceive srv = (if initialized srv then srv\<lparr>receive_armed := True\<rparr> else srv)"

text \<open>
  Modelled from the spec: the constructor of \<open>UDPServer\<close> is in the missing
  \<open>generic_udp_server.cpp\<close>. By the spec it opens a socket bound to the port, reports
  not-initialized when the bind fails, and on success arms the first asynchronous
  receive at once.
\<close>

definition UDPServer_construct :: "nat \<Rightarrow> bool \<Rightarrow> UDPServer" where
  "UDPServer_construct port bound =
     startAsynchronousReceive
       \<lparr>remote_endpoint = ([], 0), receive_buffer = [],
        server_data = UDPServerData_init\<lparr>port_number := port\<rparr>,
        initialized = bound, receive_armed = False, send_in_flight = False,
        callback_log = [], reply_log = []\<rparr>"

text \<open>
  Modelled from the spec: \<open>UDPServer::isInitialized\<close> is defined in the missing
  \<open>generic_udp_server.cpp\<close>; by the spec it reports whether the bind succeeded.
\<close>

definition isInitialized :: "UDPServer \<Rightarrow> bool" where
  "isInitialized srv = initialized srv"

text \<open>
  Modelled from the spec: the body of \<open>UDPServer::receiveCallback\<close> is in the missing
  \<open>generic_udp_server.cpp\<close>. By the spec, an arrival with no transport-level error
  fills the exchange unit with the sender's address, the byte count and the receive
  buffer, calls the consumer synchronously for the reply, and sends the reply to the
  sender asynchronously; the receive is armed again when that send completes. An
  arrival with a transport-level error calls no consumer and arms the receive again.
\<close>

definition receiveCallback ::
    "(UDPServerData \<Rightarrow> string) \<Rightarrow> UDPServer \<Rightarrow> datagram \<Rightarrow> UDPServer" where
  "receiveCallback callback srv d =
     (let srv1 = srv\<lparr>receive_armed := False\<rparr>
      in if \<not> transport_error d then
           (let srv2 = srv1\<lparr>remote_endpoint := sender d, receive_buffer := payload d,
                            server_data := (server_data srv1)
                              \<lparr>p_data := payload d, bytes_transferred := int (length (payload d))\<rparr>\<rparr>;
                reply = callback (server_data srv2)
            in srv2\<lparr>callback_log := callback_log srv2 @ [server_data srv2],
                    reply_log := reply_log srv2 @ [(remote_endpoint srv2, reply)],
                    send_in_flight := True\<rparr>)
         else startAsynchronousReceive srv1)"

text \<open>
  Modelled from the spec: the body of \<open>UDPServer::sendCallback\<close> is in the missing
  \<open>generic_udp_server.cpp\<close>. By the spec, the completion of a send arms the receive
  again, and an error of the send is only reported: it arms the receive all the same.
\<close>

definition sendCallback :: "UDPServer \<Rightarrow> bool \<Rightarrow> UDPServer" where
  "sendCallback srv error = startAsynchronousReceive (srv\<lparr>send_in_flight := False\<rparr>)"

text \<open>
  Modelled from the spec: the reactor that drives the missing callbacks. One arrival
  is one turn of the spec's receive cycle: a datagram reaches the server only through
  an armed receive; its completion runs \<open>receiveCallback\<close>, and the completion of the
  send that this started runs \<open>sendCallback\<close>.
\<close>

definition arrival :: "(UDPServerData \<Rightarrow> string) \<Rightarrow> UDPServer \<Rightarrow> datagram \<Rightarrow> UDPServer" where
  "arrival callback srv d =
     (if \<not> receive_armed srv then srv
      else (let srv1 = receiveCallback callback srv d
            in if send_in_flight srv1 then sendCallback srv1 (send_error d) else srv1))"

fun arrivals :: "(UDPServerData \<Rightarrow> string) \<Rightarrow> UDPServer \<Rightarrow> datagram list \<Rightarrow> UDPServer" where
  "arrivals callback srv [] = srv"
| "arrivals callback srv (d # ds) = arrivals callback (arrival callback srv d) ds"

text \<open>The receiving state: initialized, a receive armed, no send in flight.\<close>

definition receiving :: "UDPServer \<Rightarrow> bool" where
  "receiving srv = (initialized srv \<and> receive_armed srv \<and> \<not> send_in_flight srv)"

section \<open>Concrete values to run the model on\<close>

text \<open>One assignment of the enumerators, and a channel that owns a transport.\<close>

definition example_constants :: wire_constants where
  "example_constants =
     \<lparr>ACCEPTED = 1, REJECTED = 2, UNKNOWN = 3, ERROR_CONTROL_ENDED = 4, ERROR_FRI_ENDED = 5,
      CONNECT = 1, DISCONNECT = 2, SUCCESS = 1, NO_SUCCESS = 2\<rparr>"

definition example_channel :: FRIConnection where
  "example_channel =
     (FRIConnection_init example_constants)
       \<lparr>tcp_connection := Some \<lparr>server_addr = ''10.0.0.1'', server_port = 30200\<rparr>\<rparr>"

text \<open>A consumer that replies with what it received, and three arrivals.\<close>

definition echo :: "UDPServerData \<Rightarrow> string" where
  "echo data = p_data data"

definition example_datagrams :: "datagram list" where
  "example_datagrams =
     [\<lparr>transport_error = False, sender = (''10.0.0.7'', 49152), payload = ''abc'', send_error = False\<rparr>,
      \<lparr>transport_error = True, sender = (''10.0.0.7'', 49152), payload = [], send_error = False\<rparr>,
      \<lparr>transport_error = False, sender = (''10.0.0.7'', 49152), payload = ''de'', send_error = True\<rparr>]"

text \<open>Events that send nothing, open nothing and close nothing.\<close>

definition quiet :: "event list \<Rightarrow> bool" where
  "quiet es = (transmitted es = [] \<and> open_attempts es = [] \<and> closings es = [])"

section \<open>Properties of the command channel\<close>

lemmas ex_defs = example_constants_def example_channel_def FRIConnection_init_def

lemmas op_defs = sendCommandAndWait_def sendCommandAndWait_data_def await_answer_def
  assertLastCommandSuccess_def handleReceivedTCPData_def subscript_def emit_def
  connect_def disconnect_def release_def isConnected_def connectionLostCallback_def

lemma example_labels_ok: "switch_labels_ok example_constants"
  by (simp add: switch_labels_ok_def state_tags_def example_constants_def)

subsection \<open>Traces\<close>

lemma transmitted_append: "transmitted (xs @ ys) = transmitted xs @ transmitted ys"
  by (induction xs rule: transmitted.induct) simp_all

lemma open_attempts_append: "open_attempts (xs @ ys) = open_attempts xs @ open_attempts ys"
  by (induction xs rule: open_attempts.induct) simp_all

lemma closings_append: "closings (xs @ ys) = closings xs @ closings ys"
  by (induction xs rule: closings.induct) simp_all

lemma quiet_append: "quiet xs \<Longrightarrow> quiet ys \<Longrightarrow> quiet (xs @ ys)"
  by (simp add: quiet_def transmitted_append open_attempts_append closings_append)

subsection \<open>What receiving and waiting leave alone\<close>

text \<open>
  The receive handler touches the outcome record and the received flag only: the
  transport pointer and the awaiting flag stay, and nothing is sent, opened or closed.
\<close>

lemma handleReceivedTCPData_frame:
  assumes "handleReceivedTCPData K s data = Inr s'"
  shows "tcp_connection s' = tcp_connection s \<and> answer_wanted s' = answer_wanted s \<and>
         (\<exists>es. trace s' = trace s @ es \<and> quiet es)"
  using assms
  by (auto simp: handleReceivedTCPData_def emit_def quiet_def split: if_splits sum.splits)

lemma cv_wait_frame:
  "cv_wait K s chunks = Inr (w, rest) \<Longrightarrow>
     tcp_connection w = tcp_connection s \<and> answer_wanted w = answer_wanted s \<and>
     answer_received w \<and> (\<exists>es. trace w = trace s @ es \<and> quiet es)"
proof (induction chunks arbitrary: s)
  case Nil
  then show ?case by (auto simp: quiet_def split: if_splits)
next
  case (Cons data chunks)
  show ?case
  proof (cases "answer_received s")
    case True
    with Cons.prems show ?thesis by (auto simp: quiet_def)
  next
    case False
    with Cons.prems obtain m where m: "handleReceivedTCPData K s data = Inr m"
      and r: "cv_wait K m chunks = Inr (w, rest)"
      by (auto split: sum.splits)
    from handleReceivedTCPData_frame [OF m] obtain es1 where
      h: "tcp_connection m = tcp_connection s" "answer_wanted m = answer_wanted s"
         "trace m = trace s @ es1" "quiet es1" by blast
    from Cons.IH [OF r] obtain es2 where
      i: "tcp_connection w = tcp_connection m" "answer_wanted w = answer_wanted m"
         "answer_received w" "trace w = trace m @ es2" "quiet es2" by blast
    from h(4) i(5) have "quiet (es1 @ es2)" by (rule quiet_append)
    with h i show ?thesis by auto
  qed
qed

text \<open>A flag that is already set ends the wait before any chunk is looked at.\<close>

lemma cv_wait_ready: "answer_received s \<Longrightarrow> cv_wait K s chunks = Inr (s, chunks)"
  by (cases chunks) simp_all

lemma await_answer_frame:
  assumes "await_answer K s command_id chunks = Inr (ok, s', rest)"
  shows "cv_wait K s chunks = Inr (s'\<lparr>answer_received := True, answer_wanted := answer_wanted s\<rparr>, rest) \<and>
         tcp_connection s' = tcp_connection s \<and>
         (\<exists>es. trace s' = trace s @ es \<and> quiet es) \<and>
         ok = (last_command_state s' = ACCEPTED K \<and> last_command_id s' = command_id \<and>
               last_command_success s' = SUCCESS K)"
proof -
  from assms obtain w where w: "cv_wait K s chunks = Inr (w, rest)"
    and s': "s' = w\<lparr>answer_received := False, answer_wanted := False\<rparr>"
    and ok: "ok = assertLastCommandSuccess K s' command_id"
    by (auto simp: await_answer_def Let_def split: sum.splits)
  from cv_wait_frame [OF w] obtain es where
    f: "tcp_connection w = tcp_connection s" "answer_wanted w = answer_wanted s"
       "answer_received w" "trace w = trace s @ es" "quiet es" by blast
  have weq: "w = s'\<lparr>answer_received := True, answer_wanted := answer_wanted s\<rparr>"
    using s' f(2,3) by simp
  have woke: "cv_wait K s chunks
                = Inr (s'\<lparr>answer_received := True, answer_wanted := answer_wanted s\<rparr>, rest)"
    using w by (simp only: weq [symmetric])
  have same: "tcp_connection s' = tcp_connection s"
    using s' f(1) by simp
  have grown: "\<exists>es. trace s' = trace s @ es \<and> quiet es"
    using s' f(4,5) by simp
  have agree: "ok = (last_command_state s' = ACCEPTED K \<and> last_command_id s' = command_id \<and>
                     last_command_success s' = SUCCESS K)"
    using ok by (simp add: assertLastCommandSuccess_def)
  from woke same grown agree show ?thesis by blast
qed

lemma sendCommandAndWait_frame:
  assumes "sendCommandAndWait K s command_id chunks = Inr (ok, s', rest)"
  shows "tcp_connection s' = tcp_connection s \<and> tcp_connection s \<noteq> None \<and>
         transmitted (trace s') = transmitted (trace s) @ [[command_id]] \<and>
         open_attempts (trace s') = open_attempts (trace s) \<and>
         closings (trace s') = closings (trace s) \<and>
         ok = (last_command_state s' = ACCEPTED K \<and> last_command_id s' = command_id \<and>
               last_command_success s' = SUCCESS K)"
proof -
  from assms obtain c where c: "tcp_connection s = Some c"
    by (auto simp: sendCommandAndWait_def split: option.splits)
  let ?s1 = "emit [ByteSent command_id] (s\<lparr>answer_wanted := True\<rparr>)"
  from assms c have "await_answer K ?s1 command_id chunks = Inr (ok, s', rest)"
    by (simp add: sendCommandAndWait_def)
  from await_answer_frame [OF this] obtain es where
    "tcp_connection s' = tcp_connection ?s1" "trace s' = trace ?s1 @ es" "quiet es"
    "ok = (last_command_state s' = ACCEPTED K \<and> last_command_id s' = command_id \<and>
           last_command_success s' = SUCCESS K)"
    by blast
  with c show ?thesis
    by (simp add: emit_def quiet_def transmitted_append open_attempts_append closings_append)
qed

subsection \<open>The result of a command\<close>

lemma await_answer_resolved:
  assumes "cv_wait K s chunks = Inr (w, rest)"
  shows "await_answer K s command_id chunks
           = Inr (last_command_state w = ACCEPTED K \<and> last_command_id w = command_id \<and>
                  last_command_success w = SUCCESS K,
                  w\<lparr>answer_received := False, answer_wanted := False\<rparr>, rest)"
  using assms by (simp add: await_answer_def assertLastCommandSuccess_def)

lemma await_answer_on_accepted:
  assumes "\<not> answer_received s"
  shows "await_answer K s command_id ([ACCEPTED K, echoed, flag] # rest)
           = Inr (echoed = command_id \<and> flag = SUCCESS K,
                  s\<lparr>last_command_state := ACCEPTED K, last_command_id := echoed,
                    last_command_success := flag, answer_wanted := False,
                    answer_received := False, trace := trace s @ [NotifyOne]\<rparr>,
                  rest)"
proof -
  let ?w = "emit [NotifyOne]
              (s\<lparr>last_command_state := ACCEPTED K, last_command_id := echoed,
                 last_command_success := flag, answer_received := True\<rparr>)"
  have h: "handleReceivedTCPData K s [ACCEPTED K, echoed, flag] = Inr ?w"
    by (simp add: handleReceivedTCPData_def subscript_def)
  have "answer_received ?w" by (simp add: emit_def)
  then have "cv_wait K ?w rest = Inr (?w, rest)" by (rule cv_wait_ready)
  with h assms have "cv_wait K s ([ACCEPTED K, echoed, flag] # rest) = Inr (?w, rest)"
    by simp
  from await_answer_resolved [OF this, of command_id] show ?thesis
    by (simp add: emit_def)
qed

lemma sendCommandAndWait_resolved:
  assumes "tcp_connection s \<noteq> None"
    and "cv_wait K (emit [ByteSent command_id] (s\<lparr>answer_wanted := True\<rparr>)) chunks = Inr (w, rest)"
  shows "sendCommandAndWait K s command_id chunks
           = Inr (last_command_state w = ACCEPTED K \<and> last_command_id w = command_id \<and>
                  last_command_success w = SUCCESS K,
                  w\<lparr>answer_received := False, answer_wanted := False\<rparr>, rest)"
proof -
  from assms(1) have "sendCommandAndWait K s command_id chunks
      = await_answer K (emit [ByteSent command_id] (s\<lparr>answer_wanted := True\<rparr>)) command_id chunks"
    by (auto simp: sendCommandAndWait_def)
  with await_answer_resolved [OF assms(2), of command_id] show ?thesis by simp
qed

lemma sendCommandAndWait_data_resolved:
  assumes "tcp_connection s \<noteq> None"
    and "cv_wait K (emit [BytesSent (command_id # command_data)] (s\<lparr>answer_wanted := True\<rparr>)) chunks
           = Inr (w, rest)"
  shows "sendCommandAndWait_data K s command_id command_data chunks
           = Inr (last_command_state w = ACCEPTED K \<and> last_command_id w = command_id \<and>
                  last_command_success w = SUCCESS K,
                  w\<lparr>answer_received := False, answer_wanted := False\<rparr>, rest)"
proof -
  from assms(1) have "sendCommandAndWait_data K s command_id command_data chunks
      = await_answer K (emit [BytesSent (command_id # command_data)] (s\<lparr>answer_wanted := True\<rparr>))
          command_id chunks"
    by (auto simp: sendCommandAndWait_data_def)
  with await_answer_resolved [OF assms(2), of command_id] show ?thesis by simp
qed

lemma sendCommandAndWait_on_accepted:
  assumes "tcp_connection s \<noteq> None" and "\<not> answer_received s"
  shows "sendCommandAndWait K s command_id ([ACCEPTED K, echoed, flag] # rest)
           = Inr (echoed = command_id \<and> flag = SUCCESS K,
                  s\<lparr>last_command_state := ACCEPTED K, last_command_id := echoed,
                    last_command_success := flag, answer_wanted := False,
                    answer_received := False,
                    trace := trace s @ [ByteSent command_id, NotifyOne]\<rparr>,
                  rest)"
proof -
  let ?s1 = "emit [ByteSent command_id] (s\<lparr>answer_wanted := True\<rparr>)"
  from assms(2) have "\<not> answer_received ?s1" by (simp add: emit_def)
  from await_answer_on_accepted [OF this, of K command_id echoed flag rest] assms(1)
  show ?thesis
    by (auto simp: sendCommandAndWait_def emit_def)
qed

lemma sendCommandAndWait_data_on_accepted:
  assumes "tcp_connection s \<noteq> None" and "\<not> answer_received s"
  shows "sendCommandAndWait_data K s command_id command_data ([ACCEPTED K, echoed, flag] # rest)
           = Inr (echoed = command_id \<and> flag = SUCCESS K,
                  s\<lparr>last_command_state := ACCEPTED K, last_command_id := echoed,
                    last_command_success := flag, answer_wanted := False,
                    answer_received := False,
                    trace := trace s @ [BytesSent (command_id # command_data), NotifyOne]\<rparr>,
                  rest)"
proof -
  let ?s1 = "emit [BytesSent (command_id # command_data)] (s\<lparr>answer_wanted := True\<rparr>)"
  from assms(2) have "\<not> answer_received ?s1" by (simp add: emit_def)
  from await_answer_on_accepted [OF this, of K command_id echoed flag rest] assms(1)
  show ?thesis
    by (auto simp: sendCommandAndWait_data_def emit_def)
qed

lemma sendCommandAndWait_returned:
  assumes "sendCommandAndWait K s command_id chunks = Inr (ok, s', rest)"
  shows "tcp_connection s \<noteq> None \<and>
         cv_wait K (emit [ByteSent command_id] (s\<lparr>answer_wanted := True\<rparr>)) chunks
           = Inr (s'\<lparr>answer_received := True, answer_wanted := True\<rparr>, rest) \<and>
         ok = (last_command_state s' = ACCEPTED K \<and> last_command_id s' = command_id \<and>
               last_command_success s' = SUCCESS K)"
proof -
  let ?s1 = "emit [ByteSent command_id] (s\<lparr>answer_wanted := True\<rparr>)"
  from assms have owned: "tcp_connection s \<noteq> None"
    and "await_answer K ?s1 command_id chunks = Inr (ok, s', rest)"
    by (auto simp: sendCommandAndWait_def split: option.splits)
  from await_answer_frame [OF this(2)] owned show ?thesis
    by (simp add: emit_def)
qed

lemma sendCommandAndWait_data_returned:
  assumes "sendCommandAndWait_data K s command_id command_data chunks = Inr (ok, s', rest)"
  shows "tcp_connection s \<noteq> None \<and>
         cv_wait K (emit [BytesSent (command_id # command_data)] (s\<lparr>answer_wanted := True\<rparr>)) chunks
           = Inr (s'\<lparr>answer_received := True, answer_wanted := True\<rparr>, rest) \<and>
         ok = (last_command_state s' = ACCEPTED K \<and> last_command_id s' = command_id \<and>
               last_command_success s' = SUCCESS K)"
proof -
  let ?s1 = "emit [BytesSent (command_id # command_data)] (s\<lparr>answer_wanted := True\<rparr>)"
  from assms have owned: "tcp_connection s \<noteq> None"
    and "await_answer K ?s1 command_id chunks = Inr (ok, s', rest)"
    by (auto simp: sendCommandAndWait_data_def split: option.splits)
  from await_answer_frame [OF this(2)] owned show ?thesis
    by (simp add: emit_def)
qed

text \<open>
  Claim C1. With a transport open, \<open>sendCommandAndWait\<close> returns as soon as the wait
  resolves, with or without a payload, and the value it returns is true exactly when
  the outcome recorded in the state that ended the wait is \<open>ACCEPTED\<close>, for the
  identifier of the command that was sent, with the success flag \<open>SUCCESS\<close>; any other
  recorded state, identifier or flag makes it return false. In particular a
  well-formed \<open>ACCEPTED\<close> chunk that arrives next, with no answer left over from
  before, ends the wait, and the result is true exactly when the chunk echoes the
  command and carries \<open>SUCCESS\<close>. Conversely, whenever the call returns, a transport
  was open, the wait was ended by a state with the received flag set, and the result
  is that comparison; the state returned is the one that ended the wait with both
  flags cleared.
\<close>

theorem sendCommandAndWait_iff_recorded_outcome:
  "(tcp_connection s \<noteq> None \<and>
    cv_wait K (emit [ByteSent command_id] (s\<lparr>answer_wanted := True\<rparr>)) chunks = Inr (w, rest) \<longrightarrow>
      sendCommandAndWait K s command_id chunks
        = Inr (last_command_state w = ACCEPTED K \<and> last_command_id w = command_id \<and>
               last_command_success w = SUCCESS K,
               w\<lparr>answer_received := False, answer_wanted := False\<rparr>, rest)) \<and>
   (tcp_connection s \<noteq> None \<and>
    cv_wait K (emit [BytesSent (command_id # command_data)] (s\<lparr>answer_wanted := True\<rparr>)) chunks
      = Inr (w, rest) \<longrightarrow>
      sendCommandAndWait_data K s command_id command_data chunks
        = Inr (last_command_state w = ACCEPTED K \<and> last_command_id w = command_id \<and>
               last_command_success w = SUCCESS K,
               w\<lparr>answer_received := False, answer_wanted := False\<rparr>, rest)) \<and>
   (tcp_connection s \<noteq> None \<and> \<not> answer_received s \<longrightarrow>
      sendCommandAndWait K s command_id ([ACCEPTED K, echoed, flag] # rest)
        = Inr (echoed = command_id \<and> flag = SUCCESS K,
               s\<lparr>last_command_state := ACCEPTED K, last_command_id := echoed,
                 last_command_success := flag, answer_wanted := False, answer_received := False,
                 trace := trace s @ [ByteSent command_id, NotifyOne]\<rparr>,
               rest) \<and>
      sendCommandAndWait_data K s command_id command_data ([ACCEPTED K, echoed, flag] # rest)
        = Inr (echoed = command_id \<and> flag = SUCCESS K,
               s\<lparr>last_command_state := ACCEPTED K, last_command_id := echoed,
                 last_command_success := flag, answer_wanted := False, answer_received := False,
                 trace := trace s @ [BytesSent (command_id # command_data), NotifyOne]\<rparr>,
               rest)) \<and>
   (sendCommandAndWait K s command_id chunks = Inr (ok, s', rest) \<longrightarrow>
      tcp_connection s \<noteq> None \<and>
      cv_wait K (emit [ByteSent command_id] (s\<lparr>answer_wanted := True\<rparr>)) chunks
        = Inr (s'\<lparr>answer_received := True, answer_wanted := True\<rparr>, rest) \<and>
      ok = (last_command_state s' = ACCEPTED K \<and> last_command_id s' = command_id \<and>
            last_command_success s' = SUCCESS K)) \<and>
   (sendCommandAndWait_data K s command_id command_data chunks = Inr (ok, s', rest) \<longrightarrow>
      tcp_connection s \<noteq> None \<and>
      cv_wait K (emit [BytesSent (command_id # command_data)] (s\<lparr>answer_wanted := True\<rparr>)) chunks
        = Inr (s'\<lparr>answer_received := True, answer_wanted := True\<rparr>, rest) \<and>
      ok = (last_command_state s' = ACCEPTED K \<and> last_command_id s' = command_id \<and>
            last_command_success s' = SUCCESS K))"
  (is "?resolved \<and> ?resolved_data \<and> ?accepted \<and> ?returned \<and> ?returned_data")
proof -
  have 1: ?resolved
    using sendCommandAndWait_resolved [of s K command_id chunks w rest] by blast
  have 2: ?resolved_data
    using sendCommandAndWait_data_resolved [of s K command_id command_data chunks w rest] by blast
  have 3: ?accepted
    using sendCommandAndWait_on_accepted [of s K command_id echoed flag rest]
      sendCommandAndWait_data_on_accepted [of s K command_id command_data echoed flag rest]
    by blast
  have 4: ?returned
    using sendCommandAndWait_returned [of K s command_id chunks ok s' rest] by blast
  have 5: ?returned_data
    using sendCommandAndWait_data_returned [of K s command_id command_data chunks ok s' rest]
    by blast
  from 1 2 3 4 5 show ?thesis by blast
qed

theorem sendCommandAndWait_iff_recorded_outcome_witness:
  "tcp_connection example_channel \<noteq> None \<and> \<not> answer_received example_channel \<and>
   sendCommandAndWait example_constants example_channel 1 [[1, 1, 1]]
     = Inr (True, example_channel\<lparr>last_command_success := 1, trace := [ByteSent 1, NotifyOne]\<rparr>, []) \<and>
   sendCommandAndWait_data example_constants example_channel 1 [7] [[1, 1, 1]]
     = Inr (True, example_channel\<lparr>last_command_success := 1, trace := [BytesSent [1, 7], NotifyOne]\<rparr>, []) \<and>
   sendCommandAndWait example_constants example_channel 1 [[1, 1, 2], [1, 1, 1]]
     = Inr (False, example_channel\<lparr>trace := [ByteSent 1, NotifyOne]\<rparr>, [[1, 1, 1]]) \<and>
   sendCommandAndWait example_constants example_channel 1 [[1, 2, 1]]
     = Inr (False, example_channel\<lparr>last_command_id := 2, last_command_success := 1,
                     trace := [ByteSent 1, NotifyOne]\<rparr>, []) \<and>
   cv_wait example_constants (emit [ByteSent 1] (example_channel\<lparr>answer_wanted := True\<rparr>)) [[2, 1]]
     = Inr (example_channel\<lparr>last_command_state := 2, answer_wanted := True, answer_received := True,
              trace := [ByteSent 1, NotifyOne]\<rparr>, []) \<and>
   sendCommandAndWait example_constants example_channel 1 [[2, 1]]
     = Inr (False, example_channel\<lparr>last_command_state := 2, trace := [ByteSent 1, NotifyOne]\<rparr>, [])"
proof -
  let ?K = example_constants
  have owned: "tcp_connection example_channel \<noteq> None" and fresh: "\<not> answer_received example_channel"
    by (simp_all add: ex_defs)
  note acc = sendCommandAndWait_iff_recorded_outcome [of example_channel ?K 1 _ _ _ "[7]" _ _, THEN conjunct2, THEN conjunct2, THEN conjunct1,
                 THEN mp, OF conjI, OF owned fresh]
  have a: "sendCommandAndWait ?K example_channel 1 [[1, 1, 1]]
     = Inr (True, example_channel\<lparr>last_command_success := 1, trace := [ByteSent 1, NotifyOne]\<rparr>, [])"
    using acc [of 1 1 "[]", THEN conjunct1] by (simp add: ex_defs)
  have b: "sendCommandAndWait_data ?K example_channel 1 [7] [[1, 1, 1]]
     = Inr (True, example_channel\<lparr>last_command_success := 1, trace := [BytesSent [1, 7], NotifyOne]\<rparr>, [])"
    using acc [of 1 1 "[]", THEN conjunct2] by (simp add: ex_defs)
  have c: "sendCommandAndWait ?K example_channel 1 [[1, 1, 2], [1, 1, 1]]
     = Inr (False, example_channel\<lparr>trace := [ByteSent 1, NotifyOne]\<rparr>, [[1, 1, 1]])"
    using acc [of 1 2 "[[1, 1, 1]]", THEN conjunct1] by (simp add: ex_defs)
  have d: "sendCommandAndWait ?K example_channel 1 [[1, 2, 1]]
     = Inr (False, example_channel\<lparr>last_command_id := 2, last_command_success := 1,
                     trace := [ByteSent 1, NotifyOne]\<rparr>, [])"
    using acc [of 2 1 "[]", THEN conjunct1] by (simp add: ex_defs)
  have w: "cv_wait ?K (emit [ByteSent 1] (example_channel\<lparr>answer_wanted := True\<rparr>)) [[2, 1]]
     = Inr (example_channel\<lparr>last_command_state := 2, answer_wanted := True, answer_received := True,
              trace := [ByteSent 1, NotifyOne]\<rparr>, [])"
    by (simp add: ex_defs op_defs)
  have e: "sendCommandAndWait ?K example_channel 1 [[2, 1]]
     = Inr (False, example_channel\<lparr>last_command_state := 2, trace := [ByteSent 1, NotifyOne]\<rparr>, [])"
    using sendCommandAndWait_iff_recorded_outcome [of example_channel ?K 1 "[[2, 1]]" _ "[]", THEN conjunct1, THEN mp, OF conjI, OF owned w]
    by (simp add: ex_defs)
  from owned fresh a b c d w e show ?thesis by blast
qed

subsection \<open>Chunks that are too short\<close>

text \<open>
  Claim C2. The claim asks that a chunk tagged \<open>ACCEPTED\<close> with fewer than three
  bytes, or tagged \<open>REJECTED\<close> with fewer than two, is handled with no read past its
  end. The handler does read past its end: the two size checks have empty bodies, and
  \<open>data[1]\<close> (and \<open>data[2]\<close>) are evaluated whatever the size. Every such chunk ends
  in the fault \<open>OutOfBoundsRead\<close>.
\<close>

theorem short_outcome_chunk_reads_past_end:
  assumes "switch_labels_ok K"
    and "(tag = ACCEPTED K \<and> length rest < 2) \<or> (tag = REJECTED K \<and> length rest < 1)"
  shows "handleReceivedTCPData K s (tag # rest) = Inl OutOfBoundsRead"
  using assms
  by (auto simp: handleReceivedTCPData_def subscript_def switch_labels_ok_def state_tags_def)

theorem short_outcome_chunk_reads_past_end_witness:
  "switch_labels_ok example_constants \<and>
   handleReceivedTCPData example_constants example_channel [ACCEPTED example_constants]
     = Inl OutOfBoundsRead \<and>
   handleReceivedTCPData example_constants example_channel [ACCEPTED example_constants, 1]
     = Inl OutOfBoundsRead \<and>
   handleReceivedTCPData example_constants example_channel [REJECTED example_constants]
     = Inl OutOfBoundsRead"
  using short_outcome_chunk_reads_past_end
          [OF example_labels_ok, of "ACCEPTED example_constants" "[]" example_channel]
        short_outcome_chunk_reads_past_end
          [OF example_labels_ok, of "ACCEPTED example_constants" "[1]" example_channel]
        short_outcome_chunk_reads_past_end
          [OF example_labels_ok, of "REJECTED example_constants" "[]" example_channel]
        example_labels_ok
  by simp

subsection \<open>Session-end tags\<close>

text \<open>
  Claim C3. A chunk tagged \<open>ERROR_CONTROL_ENDED\<close> or \<open>ERROR_FRI_ENDED\<close>: when the
  channel is awaiting an outcome, the handler records that state, sets the received
  flag and notifies once, and runs no error handler; when it is not awaiting, the
  outcome record and both flags stay as they are, nobody is notified, and the one
  handler that belongs to the tag is run once.
\<close>

theorem session_end_dispatch:
  assumes "switch_labels_ok K"
  shows "(tag = ERROR_CONTROL_ENDED K \<longrightarrow>
            handleReceivedTCPData K s (tag # rest) =
              Inr (if answer_wanted s
                   then s\<lparr>last_command_state := ERROR_CONTROL_ENDED K, answer_received := True,
                          trace := trace s @ [NotifyOne]\<rparr>
                   else s\<lparr>trace := trace s @ [ControlEndedHandlerRun]\<rparr>)) \<and>
         (tag = ERROR_FRI_ENDED K \<longrightarrow>
            handleReceivedTCPData K s (tag # rest) =
              Inr (if answer_wanted s
                   then s\<lparr>last_command_state := ERROR_FRI_ENDED K, answer_received := True,
                          trace := trace s @ [NotifyOne]\<rparr>
                   else s\<lparr>trace := trace s @ [FRIEndedHandlerRun]\<rparr>))"
  using assms
  by (auto simp: handleReceivedTCPData_def emit_def switch_labels_ok_def state_tags_def)

theorem session_end_dispatch_witness:
  "switch_labels_ok example_constants \<and>
   handleReceivedTCPData example_constants example_channel [4]
     = Inr (example_channel\<lparr>trace := [ControlEndedHandlerRun]\<rparr>) \<and>
   handleReceivedTCPData example_constants example_channel [5]
     = Inr (example_channel\<lparr>trace := [FRIEndedHandlerRun]\<rparr>) \<and>
   handleReceivedTCPData example_constants (example_channel\<lparr>answer_wanted := True\<rparr>) [4]
     = Inr (example_channel\<lparr>last_command_state := 4, answer_wanted := True,
                            answer_received := True, trace := [NotifyOne]\<rparr>) \<and>
   handleReceivedTCPData example_constants (example_channel\<lparr>answer_wanted := True\<rparr>) [5]
     = Inr (example_channel\<lparr>last_command_state := 5, answer_wanted := True,
                            answer_received := True, trace := [NotifyOne]\<rparr>)"
  using session_end_dispatch [OF example_labels_ok, of 4 example_channel "[]"]
        session_end_dispatch [OF example_labels_ok, of 5 example_channel "[]"]
        session_end_dispatch [OF example_labels_ok, of 4 "example_channel\<lparr>answer_wanted := True\<rparr>" "[]"]
        session_end_dispatch [OF example_labels_ok, of 5 "example_channel\<lparr>answer_wanted := True\<rparr>" "[]"]
        example_labels_ok
  by (simp add: ex_defs)

subsection \<open>A command submitted while one is outstanding\<close>

text \<open>
  Claim C4, as stated, fails: a channel whose awaiting flag is already set takes the
  next command like a free one. It sends the byte, waits, and returns true on the
  answer; nothing is detected.
\<close>

theorem second_submission_not_detected_counterexample:
  "answer_wanted (example_channel\<lparr>answer_wanted := True\<rparr>) \<and>
   sendCommandAndWait example_constants (example_channel\<lparr>answer_wanted := True\<rparr>)
       (CONNECT example_constants) [[1, 1, 1]]
     = Inr (True, example_channel\<lparr>last_command_success := 1, trace := [ByteSent 1, NotifyOne]\<rparr>, [])"
  by (simp add: ex_defs op_defs)

text \<open>
  Claim C4, amended. The channel has one awaiting flag, and \<open>sendCommandAndWait\<close>
  never reads it: with or without a payload, a call that starts with the flag set does
  exactly what the call that starts with the flag clear does. With a transport open
  it sets the flag, transmits the command and waits.
\<close>

theorem sendCommandAndWait_ignores_answer_wanted:
  "sendCommandAndWait K (s\<lparr>answer_wanted := True\<rparr>) command_id chunks
     = sendCommandAndWait K (s\<lparr>answer_wanted := False\<rparr>) command_id chunks \<and>
   sendCommandAndWait_data K (s\<lparr>answer_wanted := True\<rparr>) command_id command_data chunks
     = sendCommandAndWait_data K (s\<lparr>answer_wanted := False\<rparr>) command_id command_data chunks \<and>
   (tcp_connection s \<noteq> None \<longrightarrow>
      sendCommandAndWait K (s\<lparr>answer_wanted := True\<rparr>) command_id chunks
        = await_answer K (s\<lparr>answer_wanted := True, trace := trace s @ [ByteSent command_id]\<rparr>)
            command_id chunks)"
  by (auto simp: sendCommandAndWait_def sendCommandAndWait_data_def emit_def Let_def
      split: option.splits)

theorem sendCommandAndWait_ignores_answer_wanted_witness:
  "tcp_connection example_channel \<noteq> None \<and>
   sendCommandAndWait example_constants (example_channel\<lparr>answer_wanted := True\<rparr>) 1 [[1, 1, 1]]
     = sendCommandAndWait example_constants (example_channel\<lparr>answer_wanted := False\<rparr>) 1 [[1, 1, 1]] \<and>
   sendCommandAndWait example_constants (example_channel\<lparr>answer_wanted := True\<rparr>) 1 [[1, 1, 1]]
     = await_answer example_constants
         (example_channel\<lparr>answer_wanted := True, trace := trace example_channel @ [ByteSent 1]\<rparr>)
         1 [[1, 1, 1]]"
proof -
  have "tcp_connection example_channel \<noteq> None"
    by (simp add: ex_defs)
  with sendCommandAndWait_ignores_answer_wanted
         [of example_constants example_channel 1 "[[1, 1, 1]]" "[]"]
  show ?thesis by blast
qed

subsection \<open>Chunks with no known tag, and the empty chunk\<close>

text \<open>
  Claim C8, as stated, fails on the empty chunk: the handler returns at once, so the
  outcome stays what it was (here \<open>ACCEPTED\<close>, not \<open>UNKNOWN\<close>), the received flag
  stays clear and nobody is notified.
\<close>

theorem empty_chunk_not_recorded_counterexample:
  "handleReceivedTCPData example_constants example_channel [] = Inr example_channel \<and>
   last_command_state example_channel \<noteq> UNKNOWN example_constants \<and>
   \<not> answer_received example_channel \<and>
   notifications (trace example_channel) = 0"
  by (simp add: ex_defs op_defs)

text \<open>
  Claim C8, amended. A chunk that is not empty and whose first byte is none of the five
  tags is recorded as \<open>UNKNOWN\<close>: the received flag is set and the waiting thread is
  notified once. An empty chunk changes nothing and notifies nobody.
\<close>

theorem unknown_tag_recorded_as_UNKNOWN:
  "(tag \<notin> set (state_tags K) \<longrightarrow>
      handleReceivedTCPData K s (tag # rest) =
        Inr (s\<lparr>last_command_state := UNKNOWN K, answer_received := True,
               trace := trace s @ [NotifyOne]\<rparr>)) \<and>
   handleReceivedTCPData K s [] = Inr s"
  by (simp add: handleReceivedTCPData_def emit_def state_tags_def)

theorem unknown_tag_recorded_as_UNKNOWN_witness:
  "9 \<notin> set (state_tags example_constants) \<and>
   handleReceivedTCPData example_constants example_channel [9, 1, 1] =
     Inr (example_channel\<lparr>last_command_state := 3, answer_received := True,
                            trace := [NotifyOne]\<rparr>)"
  using unknown_tag_recorded_as_UNKNOWN [of 9 example_constants example_channel "[1, 1]"]
  by (simp add: ex_defs state_tags_def)

subsection \<open>Connecting and disconnecting\<close>

lemma release_facts:
  "tcp_connection (release s) = None \<and> transmitted (trace (release s)) = transmitted (trace s) \<and>
   open_attempts (trace (release s)) = open_attempts (trace s) \<and>
   closings (trace (release s))
     = closings (trace s) @ (if tcp_connection s = None then [] else [TransportDestroyed])"
  by (simp add: release_def emit_def transmitted_append open_attempts_append closings_append
      split: option.splits)

lemma connect_frame:
  assumes "connect K s addr port opened chunks = Inr (ok, s', rest)"
  shows "open_attempts (trace s') = open_attempts (trace s) @ [(addr, port)] \<and>
         (\<not> opened \<longrightarrow> \<not> ok \<and> rest = chunks \<and> tcp_connection s' = None \<and>
                       transmitted (trace s') = transmitted (trace s))"
proof (cases opened)
  case False
  let ?f = "emit [TransportOpenFailed addr port] s"
  from release_facts [of ?f] have r: "tcp_connection (release ?f) = None"
    "transmitted (trace (release ?f)) = transmitted (trace s)"
    "open_attempts (trace (release ?f)) = open_attempts (trace s) @ [(addr, port)]"
    by (simp_all add: emit_def transmitted_append open_attempts_append)
  from assms False r(1) have "ok = False" "s' = release ?f" "rest = chunks"
    by (simp_all add: connect_def isConnected_def)
  with r False show ?thesis by simp
next
  case True
  let ?o = "emit [TransportOpened addr port] s"
  let ?n = "(release ?o)\<lparr>tcp_connection := Some \<lparr>server_addr = addr, server_port = port\<rparr>\<rparr>"
  from assms True have "sendCommandAndWait K ?n (CONNECT K) chunks = Inr (ok, s', rest)"
    by (simp add: connect_def isConnected_def)
  from sendCommandAndWait_frame [OF this] release_facts [of ?o] True
  show ?thesis
    by (simp add: emit_def open_attempts_append)
qed

lemma disconnect_after_command:
  assumes "tcp_connection s = Some c"
    and "sendCommandAndWait K s (DISCONNECT K) chunks = Inr (b, m, rest)"
  shows "disconnect K s chunks
           = Inr (b, if b then m\<lparr>tcp_connection := None,
                               trace := trace m @ [ConnectionClosed, TransportDestroyed]\<rparr>
                     else m, rest)"
proof -
  from sendCommandAndWait_frame [OF assms(2)] assms(1)
  have "tcp_connection m = Some c" by simp
  with assms show ?thesis
    by (simp add: disconnect_def release_def emit_def)
qed

lemma disconnect_resolved:
  assumes "tcp_connection s = Some c"
    and "cv_wait K (emit [ByteSent (DISCONNECT K)] (s\<lparr>answer_wanted := True\<rparr>)) chunks = Inr (w, rest)"
  shows "disconnect K s chunks
           = (if last_command_state w = ACCEPTED K \<and> last_command_id w = DISCONNECT K \<and>
                 last_command_success w = SUCCESS K
              then Inr (True,
                        w\<lparr>tcp_connection := None, answer_received := False, answer_wanted := False,
                          trace := trace w @ [ConnectionClosed, TransportDestroyed]\<rparr>, rest)
              else Inr (False, w\<lparr>answer_received := False, answer_wanted := False\<rparr>, rest))"
proof -
  from assms(1) have "tcp_connection s \<noteq> None" by simp
  from sendCommandAndWait_resolved [OF this assms(2)]
  have "sendCommandAndWait K s (DISCONNECT K) chunks
           = Inr (last_command_state w = ACCEPTED K \<and> last_command_id w = DISCONNECT K \<and>
                  last_command_success w = SUCCESS K,
                  w\<lparr>answer_received := False, answer_wanted := False\<rparr>, rest)" .
  from disconnect_after_command [OF assms(1) this] show ?thesis
    by simp
qed

lemma disconnect_on_accepted:
  assumes "tcp_connection s = Some c" and "\<not> answer_received s"
  shows "disconnect K s ([ACCEPTED K, echoed, flag] # rest)
           = (if echoed = DISCONNECT K \<and> flag = SUCCESS K
              then Inr (True,
                        s\<lparr>tcp_connection := None, last_command_state := ACCEPTED K,
                          last_command_id := echoed, last_command_success := flag,
                          answer_wanted := False, answer_received := False,
                          trace := trace s @ [ByteSent (DISCONNECT K), NotifyOne,
                                              ConnectionClosed, TransportDestroyed]\<rparr>, rest)
              else Inr (False,
                        s\<lparr>last_command_state := ACCEPTED K,
                          last_command_id := echoed, last_command_success := flag,
                          answer_wanted := False, answer_received := False,
                          trace := trace s @ [ByteSent (DISCONNECT K), NotifyOne]\<rparr>, rest))"
proof -
  from assms(1) have "tcp_connection s \<noteq> None" by simp
  from sendCommandAndWait_on_accepted [OF this assms(2), of K "DISCONNECT K" echoed flag rest]
       disconnect_after_command [OF assms(1)]
  show ?thesis by simp
qed

lemma disconnect_returned:
  assumes a: "tcp_connection s = Some c \<and> disconnect K s chunks = Inr (ok, s', rest)"
  shows "(\<exists>m. sendCommandAndWait K s (DISCONNECT K) chunks = Inr (ok, m, rest) \<and>
           ok = (last_command_state m = ACCEPTED K \<and> last_command_id m = DISCONNECT K \<and>
                 last_command_success m = SUCCESS K) \<and>
           s' = (if ok then m\<lparr>tcp_connection := None,
                              trace := trace m @ [ConnectionClosed, TransportDestroyed]\<rparr>
                 else m)) \<and>
      transmitted (trace s') = transmitted (trace s) @ [[DISCONNECT K]] \<and>
      (ok \<longrightarrow> tcp_connection s' = None \<and>
              closings (trace s') = closings (trace s) @ [ConnectionClosed, TransportDestroyed]) \<and>
      (\<not> ok \<longrightarrow> tcp_connection s' = Some c \<and> closings (trace s') = closings (trace s))"
proof -
  from a obtain b m r where m: "sendCommandAndWait K s (DISCONNECT K) chunks = Inr (b, m, r)"
    by (auto simp: disconnect_def split: sum.splits)
  note f = sendCommandAndWait_frame [OF m]
  from a m f have ok: "b = ok" "r = rest"
    by (auto simp: disconnect_def split: if_splits option.splits)
  from a m f have s': "s' = (if ok then m\<lparr>tcp_connection := None,
                              trace := trace m @ [ConnectionClosed, TransportDestroyed]\<rparr> else m)"
    by (auto simp: disconnect_def release_def emit_def split: if_splits option.splits)
  have 1: "\<exists>m. sendCommandAndWait K s (DISCONNECT K) chunks = Inr (ok, m, rest) \<and>
           ok = (last_command_state m = ACCEPTED K \<and> last_command_id m = DISCONNECT K \<and>
                 last_command_success m = SUCCESS K) \<and>
           s' = (if ok then m\<lparr>tcp_connection := None,
                              trace := trace m @ [ConnectionClosed, TransportDestroyed]\<rparr>
                 else m)"
    using m ok s' f by blast
  have 2: "transmitted (trace s') = transmitted (trace s) @ [[DISCONNECT K]]"
    using s' f by (simp add: transmitted_append)
  have 3: "ok \<longrightarrow> tcp_connection s' = None \<and>
              closings (trace s') = closings (trace s) @ [ConnectionClosed, TransportDestroyed]"
    using s' f by (simp add: closings_append)
  have 4: "\<not> ok \<longrightarrow> tcp_connection s' = Some c \<and> closings (trace s') = closings (trace s)"
    using s' f a by simp
  from 1 2 3 4 show ?thesis by blast
qed

text \<open>
  Claim C6. With no transport, \<open>disconnect\<close> returns true and leaves the channel as
  it is: nothing is sent. With a transport, it sends the one byte \<open>DISCONNECT\<close> and
  waits, and as soon as the wait resolves it returns: true, with the connection closed
  and the transport released, when the recorded outcome is \<open>ACCEPTED\<close> with
  \<open>SUCCESS\<close> for \<open>DISCONNECT\<close>; false, with the same transport still owned and
  nothing closed, for any other recorded outcome. In particular a well-formed
  \<open>ACCEPTED\<close> chunk that arrives next ends the wait. Conversely, whenever it returns
  on an open transport, \<open>DISCONNECT\<close> was the one transmission, and the result is
  true exactly when the recorded outcome is that accepted one.
\<close>

theorem disconnect_closes_iff_accepted:
  "(tcp_connection s = None \<longrightarrow> disconnect K s chunks = Inr (True, s, chunks)) \<and>
   (tcp_connection s = Some c \<and>
    cv_wait K (emit [ByteSent (DISCONNECT K)] (s\<lparr>answer_wanted := True\<rparr>)) chunks = Inr (w, rest) \<longrightarrow>
      disconnect K s chunks
        = (if last_command_state w = ACCEPTED K \<and> last_command_id w = DISCONNECT K \<and>
              last_command_success w = SUCCESS K
           then Inr (True,
                     w\<lparr>tcp_connection := None, answer_received := False, answer_wanted := False,
                       trace := trace w @ [ConnectionClosed, TransportDestroyed]\<rparr>, rest)
           else Inr (False, w\<lparr>answer_received := False, answer_wanted := False\<rparr>, rest))) \<and>
   (tcp_connection s = Some c \<and>
    sendCommandAndWait K s (DISCONNECT K) chunks = Inr (b, m, rest) \<longrightarrow>
      disconnect K s chunks
        = Inr (b, if b then m\<lparr>tcp_connection := None,
                            trace := trace m @ [ConnectionClosed, TransportDestroyed]\<rparr>
                  else m, rest)) \<and>
   (tcp_connection s = Some c \<and> \<not> answer_received s \<longrightarrow>
      disconnect K s ([ACCEPTED K, echoed, flag] # rest)
        = (if echoed = DISCONNECT K \<and> flag = SUCCESS K
           then Inr (True,
                     s\<lparr>tcp_connection := None, last_command_state := ACCEPTED K,
                       last_command_id := echoed, last_command_success := flag,
                       answer_wanted := False, answer_received := False,
                       trace := trace s @ [ByteSent (DISCONNECT K), NotifyOne,
                                           ConnectionClosed, TransportDestroyed]\<rparr>, rest)
           else Inr (False,
                     s\<lparr>last_command_state := ACCEPTED K,
                       last_command_id := echoed, last_command_success := flag,
                       answer_wanted := False, answer_received := False,
                       trace := trace s @ [ByteSent (DISCONNECT K), NotifyOne]\<rparr>, rest))) \<and>
   (tcp_connection s = Some c \<and> disconnect K s chunks = Inr (ok, s', rest) \<longrightarrow>
      (\<exists>m. sendCommandAndWait K s (DISCONNECT K) chunks = Inr (ok, m, rest) \<and>
           ok = (last_command_state m = ACCEPTED K \<and> last_command_id m = DISCONNECT K \<and>
                 last_command_success m = SUCCESS K) \<and>
           s' = (if ok then m\<lparr>tcp_connection := None,
                              trace := trace m @ [ConnectionClosed, TransportDestroyed]\<rparr>
                 else m)) \<and>
      transmitted (trace s') = transmitted (trace s) @ [[DISCONNECT K]] \<and>
      (ok \<longrightarrow> tcp_connection s' = None \<and>
              closings (trace s') = closings (trace s) @ [ConnectionClosed, TransportDestroyed]) \<and>
      (\<not> ok \<longrightarrow> tcp_connection s' = Some c \<and> closings (trace s') = closings (trace s)))"
  (is "?closed \<and> ?resolved \<and> ?after \<and> ?accepted \<and> ?returned")
proof -
  have 1: ?closed
    by (simp add: disconnect_def)
  have 2: ?resolved
    using disconnect_resolved [of s c K chunks w rest] by blast
  have 3: ?after
    using disconnect_after_command [of s c K chunks b m rest] by blast
  have 4: ?accepted
    using disconnect_on_accepted [of s c K echoed flag rest] by blast
  have 5: ?returned
    using disconnect_returned [of s c K chunks ok s' rest] by blast
  from 1 2 3 4 5 show ?thesis by blast
qed

theorem disconnect_closes_iff_accepted_witness:
  "tcp_connection (FRIConnection_init example_constants) = None \<and>
   disconnect example_constants (FRIConnection_init example_constants) [[1, 2, 1]]
     = Inr (True, FRIConnection_init example_constants, [[1, 2, 1]]) \<and>
   tcp_connection example_channel = Some \<lparr>server_addr = ''10.0.0.1'', server_port = 30200\<rparr> \<and>
   \<not> answer_received example_channel \<and>
   disconnect example_constants example_channel [[1, 2, 1]]
     = Inr (True,
            example_channel\<lparr>tcp_connection := None, last_command_id := 2, last_command_success := 1,
              trace := [ByteSent 2, NotifyOne, ConnectionClosed, TransportDestroyed]\<rparr>, []) \<and>
   transmitted [ByteSent 2, NotifyOne, ConnectionClosed, TransportDestroyed] = [[DISCONNECT example_constants]] \<and>
   disconnect example_constants example_channel [[1, 2, 2]]
     = Inr (False,
            example_channel\<lparr>last_command_id := 2, trace := [ByteSent 2, NotifyOne]\<rparr>, []) \<and>
   cv_wait example_constants (emit [ByteSent 2] (example_channel\<lparr>answer_wanted := True\<rparr>)) [[2, 2]]
     = Inr (example_channel\<lparr>last_command_state := 2, last_command_id := 2, answer_wanted := True,
              answer_received := True, trace := [ByteSent 2, NotifyOne]\<rparr>, []) \<and>
   disconnect example_constants example_channel [[2, 2]]
     = Inr (False,
            example_channel\<lparr>last_command_state := 2, last_command_id := 2,
              trace := [ByteSent 2, NotifyOne]\<rparr>, []) \<and>
   closings [ByteSent 2, NotifyOne] = []"
proof -
  let ?K = example_constants
  let ?c = "\<lparr>server_addr = ''10.0.0.1'', server_port = 30200\<rparr>"
  let ?closed = "example_channel\<lparr>tcp_connection := None, last_command_id := 2, last_command_success := 1,
              trace := [ByteSent 2, NotifyOne, ConnectionClosed, TransportDestroyed]\<rparr>"
  let ?kept = "example_channel\<lparr>last_command_state := 2, last_command_id := 2,
              trace := [ByteSent 2, NotifyOne]\<rparr>"
  have none: "tcp_connection (FRIConnection_init ?K) = None"
    by (simp add: FRIConnection_init_def)
  have some: "tcp_connection example_channel = Some ?c"
    and fresh: "\<not> answer_received example_channel"
    by (simp_all add: ex_defs)
  from disconnect_closes_iff_accepted [where s = "FRIConnection_init ?K" and K = ?K and chunks = "[[1, 2, 1]]"] none
  have a: "disconnect ?K (FRIConnection_init ?K) [[1, 2, 1]] = Inr (True, FRIConnection_init ?K, [[1, 2, 1]])"
    by blast
  have acc: "disconnect ?K example_channel [[1, 2, 1]] = Inr (True, ?closed, [])"
    using disconnect_closes_iff_accepted [where s = example_channel and K = ?K and c = ?c
                 and echoed = 2 and flag = 1 and rest = "[]",
               THEN conjunct2, THEN conjunct2, THEN conjunct2, THEN conjunct1, THEN mp,
               OF conjI, OF some fresh]
    by (simp add: ex_defs)
  have nos: "disconnect ?K example_channel [[1, 2, 2]]
     = Inr (False, example_channel\<lparr>last_command_id := 2, trace := [ByteSent 2, NotifyOne]\<rparr>, [])"
    using disconnect_closes_iff_accepted [where s = example_channel and K = ?K and c = ?c
                 and echoed = 2 and flag = 2 and rest = "[]",
               THEN conjunct2, THEN conjunct2, THEN conjunct2, THEN conjunct1, THEN mp,
               OF conjI, OF some fresh]
    by (simp add: ex_defs)
  have w: "cv_wait ?K (emit [ByteSent 2] (example_channel\<lparr>answer_wanted := True\<rparr>)) [[2, 2]]
     = Inr (example_channel\<lparr>last_command_state := 2, last_command_id := 2, answer_wanted := True,
              answer_received := True, trace := [ByteSent 2, NotifyOne]\<rparr>, [])"
    by (simp add: ex_defs op_defs)
  have w': "cv_wait ?K (emit [ByteSent (DISCONNECT ?K)] (example_channel\<lparr>answer_wanted := True\<rparr>)) [[2, 2]]
     = Inr (example_channel\<lparr>last_command_state := 2, last_command_id := 2, answer_wanted := True,
              answer_received := True, trace := [ByteSent 2, NotifyOne]\<rparr>, [])"
    using w by (simp add: example_constants_def)
  have rej: "disconnect ?K example_channel [[2, 2]] = Inr (False, ?kept, [])"
    using disconnect_closes_iff_accepted [where s = example_channel and K = ?K and c = ?c and chunks = "[[2, 2]]"
                 and w = "example_channel\<lparr>last_command_state := 2, last_command_id := 2,
                            answer_wanted := True, answer_received := True,
                            trace := [ByteSent 2, NotifyOne]\<rparr>"
                 and rest = "[]",
               THEN conjunct2, THEN conjunct1, THEN mp, OF conjI, OF some w']
    by (simp add: ex_defs)
  from disconnect_closes_iff_accepted [where s = example_channel and K = ?K and c = ?c and chunks = "[[1, 2, 1]]"
              and ok = True and s' = ?closed and rest = "[]",
            THEN conjunct2, THEN conjunct2, THEN conjunct2, THEN conjunct2, THEN mp,
            OF conjI, OF some acc]
  have b: "transmitted (trace ?closed) = transmitted (trace example_channel) @ [[DISCONNECT ?K]]"
    by blast
  from disconnect_closes_iff_accepted [where s = example_channel and K = ?K and c = ?c and chunks = "[[2, 2]]"
              and ok = False and s' = ?kept and rest = "[]",
            THEN conjunct2, THEN conjunct2, THEN conjunct2, THEN conjunct2, THEN mp,
            OF conjI, OF some rej]
  have c: "closings (trace ?kept) = closings (trace example_channel)"
    by blast
  from b have b': "transmitted [ByteSent 2, NotifyOne, ConnectionClosed, TransportDestroyed] = [[DISCONNECT ?K]]"
    by (simp add: ex_defs)
  from c have c': "closings [ByteSent 2, NotifyOne] = []"
    by (simp add: ex_defs)
  from none a some fresh acc b' nos w rej c' show ?thesis by blast
qed

text \<open>
  Claim C7. When the transport cannot be opened, \<open>connect\<close> returns false, the
  channel owns no transport, and nothing was transmitted. When it can, whatever
  \<open>connect\<close> returns comes after the one byte \<open>CONNECT\<close> was sent over the new
  transport, and it is true only when the recorded outcome is \<open>ACCEPTED\<close> with
  \<open>SUCCESS\<close> for \<open>CONNECT\<close>.
\<close>

theorem connect_sends_only_after_open:
  "connect K s addr port False chunks
     = Inr (False, release (emit [TransportOpenFailed addr port] s), chunks) \<and>
   tcp_connection (release (emit [TransportOpenFailed addr port] s)) = None \<and>
   transmitted (trace (release (emit [TransportOpenFailed addr port] s))) = transmitted (trace s) \<and>
   (connect K s addr port True chunks = Inr (ok, s', rest) \<longrightarrow>
      tcp_connection s' = Some \<lparr>server_addr = addr, server_port = port\<rparr> \<and>
      transmitted (trace s') = transmitted (trace s) @ [[CONNECT K]] \<and>
      ok = (last_command_state s' = ACCEPTED K \<and> last_command_id s' = CONNECT K \<and>
            last_command_success s' = SUCCESS K))"
  (is "?failed \<and> ?null \<and> ?silent \<and> (?pre \<longrightarrow> ?post)")
proof -
  let ?f = "emit [TransportOpenFailed addr port] s"
  have null: ?null and silent: ?silent
    using release_facts [of ?f] by (simp_all add: emit_def transmitted_append)
  have failed: ?failed
    using null by (simp add: connect_def isConnected_def)
  have opened: ?post if a: ?pre
  proof -
    let ?n = "(release (emit [TransportOpened addr port] s))
                \<lparr>tcp_connection := Some \<lparr>server_addr = addr, server_port = port\<rparr>\<rparr>"
    from a have "sendCommandAndWait K ?n (CONNECT K) chunks = Inr (ok, s', rest)"
      by (simp add: connect_def isConnected_def)
    from sendCommandAndWait_frame [OF this] release_facts [of "emit [TransportOpened addr port] s"]
    show ?thesis
      by (simp add: emit_def transmitted_append)
  qed
  from failed null silent opened show ?thesis by blast
qed

theorem connect_sends_only_after_open_witness:
  "connect example_constants (FRIConnection_init example_constants) ''10.0.0.1'' 30200 True [[1, 1, 1]]
     = Inr (True, example_channel\<lparr>last_command_success := 1,
              trace := [TransportOpened ''10.0.0.1'' 30200, ByteSent 1, NotifyOne]\<rparr>, []) \<and>
   transmitted [TransportOpened ''10.0.0.1'' 30200, ByteSent 1, NotifyOne] = [[CONNECT example_constants]] \<and>
   connect example_constants (FRIConnection_init example_constants) ''10.0.0.1'' 30200 False [[1, 1, 1]]
     = Inr (False, (FRIConnection_init example_constants)
                     \<lparr>trace := [TransportOpenFailed ''10.0.0.1'' 30200]\<rparr>, [[1, 1, 1]])"
proof -
  let ?K = example_constants
  let ?s' = "example_channel\<lparr>last_command_success := 1,
              trace := [TransportOpened ''10.0.0.1'' 30200, ByteSent 1, NotifyOne]\<rparr>"
  have run: "connect ?K (FRIConnection_init ?K) ''10.0.0.1'' 30200 True [[1, 1, 1]] = Inr (True, ?s', [])"
    by (simp add: ex_defs op_defs)
  note t = connect_sends_only_after_open
             [of ?K "FRIConnection_init ?K" "''10.0.0.1''" 30200 "[[1, 1, 1]]" True ?s' "[]"]
  from t run have "transmitted (trace ?s') = transmitted (trace (FRIConnection_init ?K)) @ [[CONNECT ?K]]"
    by blast
  then have sent: "transmitted [TransportOpened ''10.0.0.1'' 30200, ByteSent 1, NotifyOne] = [[CONNECT ?K]]"
    by (simp add: ex_defs)
  from t have "connect ?K (FRIConnection_init ?K) ''10.0.0.1'' 30200 False [[1, 1, 1]]
     = Inr (False, release (emit [TransportOpenFailed ''10.0.0.1'' 30200] (FRIConnection_init ?K)), [[1, 1, 1]])"
    by blast
  then have failed: "connect ?K (FRIConnection_init ?K) ''10.0.0.1'' 30200 False [[1, 1, 1]]
     = Inr (False, (FRIConnection_init ?K)\<lparr>trace := [TransportOpenFailed ''10.0.0.1'' 30200]\<rparr>, [[1, 1, 1]])"
    by (simp add: ex_defs release_def emit_def)
  from run sent failed show ?thesis by blast
qed

text \<open>
  Claim C9. \<open>connectionLostCallback\<close> is one run of \<open>connect\<close> with the address and
  port it was given, its result dropped: whenever it returns, exactly one attempt to
  open a transport was added, to that address and port. When that attempt fails it
  returns with the channel owning no transport, and makes no further attempt.
\<close>

theorem connectionLostCallback_single_attempt:
  "(connectionLostCallback K s addr port opened chunks = Inr (s', rest) \<longrightarrow>
      (\<exists>ok. connect K s addr port opened chunks = Inr (ok, s', rest)) \<and>
      open_attempts (trace s') = open_attempts (trace s) @ [(addr, port)]) \<and>
   connectionLostCallback K s addr port False chunks
     = Inr (release (emit [TransportOpenFailed addr port] s), chunks) \<and>
   open_attempts (trace (release (emit [TransportOpenFailed addr port] s)))
     = open_attempts (trace s) @ [(addr, port)]"
  (is "(?pre \<longrightarrow> ?post) \<and> ?failed \<and> ?once")
proof -
  have returned: ?post if a: ?pre
  proof -
    from a obtain ok where c: "connect K s addr port opened chunks = Inr (ok, s', rest)"
      by (auto simp: connectionLostCallback_def split: sum.splits)
    from c connect_frame [OF c] show ?thesis by blast
  qed
  let ?f = "emit [TransportOpenFailed addr port] s"
  from release_facts [of ?f] have null: "tcp_connection (release ?f) = None"
    and once: ?once
    by (simp_all add: emit_def open_attempts_append)
  from null have failed: ?failed
    by (simp add: connectionLostCallback_def connect_def isConnected_def)
  from returned failed once show ?thesis by blast
qed

theorem connectionLostCallback_single_attempt_witness:
  "connectionLostCallback example_constants example_channel ''10.0.0.1'' 30200 True [[1, 1, 2]]
     = Inr (example_channel\<lparr>trace := [TransportOpened ''10.0.0.1'' 30200, TransportDestroyed,
                                         ByteSent 1, NotifyOne]\<rparr>, []) \<and>
   open_attempts [TransportOpened ''10.0.0.1'' 30200, TransportDestroyed, ByteSent 1, NotifyOne]
     = [(''10.0.0.1'', 30200)]"
proof -
  let ?K = example_constants
  let ?s' = "example_channel\<lparr>trace := [TransportOpened ''10.0.0.1'' 30200, TransportDestroyed,
                                         ByteSent 1, NotifyOne]\<rparr>"
  have run: "connectionLostCallback ?K example_channel ''10.0.0.1'' 30200 True [[1, 1, 2]] = Inr (?s', [])"
    by (simp add: ex_defs op_defs)
  from connectionLostCallback_single_attempt
         [of ?K example_channel "''10.0.0.1''" 30200 True "[[1, 1, 2]]" ?s' "[]"] run
  have "open_attempts (trace ?s') = open_attempts (trace example_channel) @ [(''10.0.0.1'', 30200)]"
    by blast
  then have "open_attempts [TransportOpened ''10.0.0.1'' 30200, TransportDestroyed, ByteSent 1, NotifyOne]
     = [(''10.0.0.1'', 30200)]"
    by (simp add: ex_defs)
  with run show ?thesis by blast
qed

text \<open>
  Claim C10. With a transport already open, \<open>connect\<close> does not refuse: it builds the
  new transport for the given address and port, which replaces and destroys the old
  one, and submits \<open>CONNECT\<close> over the new one. When it returns, \<open>CONNECT\<close> is the
  only transmission that was added: no \<open>DISCONNECT\<close> went over the old transport, and
  the old transport was destroyed without being closed first.
\<close>

theorem connect_replaces_open_transport:
  "tcp_connection s = Some old \<longrightarrow>
     connect K s addr port True chunks
       = sendCommandAndWait K
           (s\<lparr>trace := trace s @ [TransportOpened addr port, TransportDestroyed],
              tcp_connection := Some \<lparr>server_addr = addr, server_port = port\<rparr>\<rparr>)
           (CONNECT K) chunks \<and>
     (connect K s addr port True chunks = Inr (ok, s', rest) \<longrightarrow>
        tcp_connection s' = Some \<lparr>server_addr = addr, server_port = port\<rparr> \<and>
        transmitted (trace s') = transmitted (trace s) @ [[CONNECT K]] \<and>
        closings (trace s') = closings (trace s) @ [TransportDestroyed])"
proof (intro impI)
  assume old: "tcp_connection s = Some old"
  let ?n = "s\<lparr>trace := trace s @ [TransportOpened addr port, TransportDestroyed],
              tcp_connection := Some \<lparr>server_addr = addr, server_port = port\<rparr>\<rparr>"
  from old have eq: "connect K s addr port True chunks = sendCommandAndWait K ?n (CONNECT K) chunks"
    by (simp add: connect_def isConnected_def release_def emit_def)
  have "tcp_connection s' = Some \<lparr>server_addr = addr, server_port = port\<rparr> \<and>
        transmitted (trace s') = transmitted (trace s) @ [[CONNECT K]] \<and>
        closings (trace s') = closings (trace s) @ [TransportDestroyed]"
    if "connect K s addr port True chunks = Inr (ok, s', rest)"
  proof -
    from that eq have "sendCommandAndWait K ?n (CONNECT K) chunks = Inr (ok, s', rest)"
      by simp
    from sendCommandAndWait_frame [OF this] show ?thesis
      by (simp add: transmitted_append closings_append)
  qed
  with eq show "connect K s addr port True chunks = sendCommandAndWait K ?n (CONNECT K) chunks \<and>
     (connect K s addr port True chunks = Inr (ok, s', rest) \<longrightarrow>
        tcp_connection s' = Some \<lparr>server_addr = addr, server_port = port\<rparr> \<and>
        transmitted (trace s') = transmitted (trace s) @ [[CONNECT K]] \<and>
        closings (trace s') = closings (trace s) @ [TransportDestroyed])"
    by blast
qed

theorem connect_replaces_open_transport_witness:
  "tcp_connection example_channel = Some \<lparr>server_addr = ''10.0.0.1'', server_port = 30200\<rparr> \<and>
   connect example_constants example_channel ''10.0.0.2'' 30201 True [[1, 1, 1]]
     = Inr (True,
            example_channel\<lparr>tcp_connection := Some \<lparr>server_addr = ''10.0.0.2'', server_port = 30201\<rparr>,
              last_command_success := 1,
              trace := [TransportOpened ''10.0.0.2'' 30201, TransportDestroyed, ByteSent 1, NotifyOne]\<rparr>,
            []) \<and>
   transmitted [TransportOpened ''10.0.0.2'' 30201, TransportDestroyed, ByteSent 1, NotifyOne]
     = [[CONNECT example_constants]]"
proof -
  let ?K = example_constants
  let ?old = "\<lparr>server_addr = ''10.0.0.1'', server_port = 30200\<rparr>"
  let ?s' = "example_channel\<lparr>tcp_connection := Some \<lparr>server_addr = ''10.0.0.2'', server_port = 30201\<rparr>,
              last_command_success := 1,
              trace := [TransportOpened ''10.0.0.2'' 30201, TransportDestroyed, ByteSent 1, NotifyOne]\<rparr>"
  have some: "tcp_connection example_channel = Some ?old"
    by (simp add: ex_defs)
  have run: "connect ?K example_channel ''10.0.0.2'' 30201 True [[1, 1, 1]] = Inr (True, ?s', [])"
    by (simp add: ex_defs op_defs)
  from connect_replaces_open_transport
         [of example_channel ?old ?K "''10.0.0.2''" 30201 "[[1, 1, 1]]" True ?s' "[]"] some run
  have "transmitted (trace ?s') = transmitted (trace example_channel) @ [[CONNECT ?K]]"
    by blast
  then have "transmitted [TransportOpened ''10.0.0.2'' 30201, TransportDestroyed, ByteSent 1, NotifyOne]
     = [[CONNECT ?K]]"
    by (simp add: ex_defs)
  with some run show ?thesis by blast
qed

section \<open>Properties of the datagram server\<close>

lemma arrival_step:
  assumes "receiving srv"
  shows "receiving (arrival callback srv d) \<and>
         length (callback_log (arrival callback srv d))
           = length (callback_log srv) + (if transport_error d then 0 else 1)"
  using assms
  by (simp add: receiving_def arrival_def receiveCallback_def sendCallback_def
        startAsynchronousReceive_def Let_def)

lemma arrivals_append:
  "arrivals callback srv (xs @ ys) = arrivals callback (arrivals callback srv xs) ys"
  by (induction xs arbitrary: srv) simp_all

lemma arrivals_run:
  "receiving srv \<Longrightarrow>
     receiving (arrivals callback srv ds) \<and>
     length (callback_log (arrivals callback srv ds))
       = length (callback_log srv) + length (filter (\<lambda>d. \<not> transport_error d) ds)"
proof (induction ds arbitrary: srv)
  case Nil
  then show ?case by simp
next
  case (Cons d ds)
  from arrival_step [OF Cons.prems, of callback d]
  have r: "receiving (arrival callback srv d)"
    and n: "length (callback_log (arrival callback srv d))
              = length (callback_log srv) + (if transport_error d then 0 else 1)"
    by simp_all
  from Cons.IH [OF r] n show ?case by simp
qed

text \<open>
  Claim C5. A server in the receiving state is given any number of arrivals. The
  consumer is called once for each arrival with no transport-level error and never
  for one with an error; after every arrival the receive is armed again, so that
  arrival \<open>k + 1\<close> is processed whatever arrival \<open>k\<close> was.
\<close>

theorem callbacks_match_wellformed_arrivals:
  assumes "receiving srv"
  shows "length (callback_log (arrivals callback srv ds))
           = length (callback_log srv) + length (filter (\<lambda>d. \<not> transport_error d) ds) \<and>
         (\<forall>k \<le> length ds. receive_armed (arrivals callback srv (take k ds))) \<and>
         (\<forall>k < length ds.
            arrivals callback srv (take (Suc k) ds)
              = arrival callback (arrivals callback srv (take k ds)) (ds ! k) \<and>
            length (callback_log (arrivals callback srv (take (Suc k) ds)))
              = length (callback_log (arrivals callback srv (take k ds)))
                  + (if transport_error (ds ! k) then 0 else 1))"
proof (intro conjI allI impI)
  show "length (callback_log (arrivals callback srv ds))
           = length (callback_log srv) + length (filter (\<lambda>d. \<not> transport_error d) ds)"
    using arrivals_run [OF assms] by blast
next
  fix k
  show "receive_armed (arrivals callback srv (take k ds))"
    using arrivals_run [OF assms, of callback "take k ds"] by (simp add: receiving_def)
next
  fix k assume k: "k < length ds"
  then have t: "take (Suc k) ds = take k ds @ [ds ! k]"
    by (simp add: take_Suc_conv_app_nth)
  show step: "arrivals callback srv (take (Suc k) ds)
              = arrival callback (arrivals callback srv (take k ds)) (ds ! k)"
    by (simp add: t arrivals_append)
  from arrivals_run [OF assms, of callback "take k ds"]
  have "receiving (arrivals callback srv (take k ds))" by blast
  from arrival_step [OF this, of callback "ds ! k"] step
  show "length (callback_log (arrivals callback srv (take (Suc k) ds)))
              = length (callback_log (arrivals callback srv (take k ds)))
                  + (if transport_error (ds ! k) then 0 else 1)"
    by simp
qed

theorem callbacks_match_wellformed_arrivals_witness:
  "receiving (UDPServer_construct 30201 True) \<and>
   length (callback_log (arrivals echo (UDPServer_construct 30201 True) example_datagrams)) = 2 \<and>
   receive_armed (arrivals echo (UDPServer_construct 30201 True) (take 2 example_datagrams)) \<and>
   length (callback_log (arrivals echo (UDPServer_construct 30201 True) (take 2 example_datagrams)))
     = length (callback_log (arrivals echo (UDPServer_construct 30201 True) (take 1 example_datagrams)))"
proof -
  let ?srv = "UDPServer_construct 30201 True"
  have r: "receiving ?srv"
    by (simp add: receiving_def UDPServer_construct_def startAsynchronousReceive_def)
  note t = callbacks_match_wellformed_arrivals [OF r, of echo example_datagrams]
  have n: "length example_datagrams = 3"
    and e: "transport_error (example_datagrams ! 1)"
    and f: "length (filter (\<lambda>d. \<not> transport_error d) example_datagrams) = 2"
    and c: "callback_log ?srv = []"
    by (simp_all add: example_datagrams_def UDPServer_construct_def startAsynchronousReceive_def)
  from t f c have total: "length (callback_log (arrivals echo ?srv example_datagrams)) = 2"
    by simp
  have two: "2 \<le> length example_datagrams" and one: "1 < length example_datagrams"
    by (simp_all add: n)
  from t [THEN conjunct2, THEN conjunct1, THEN spec, THEN mp, OF two]
  have armed: "receive_armed (arrivals echo ?srv (take 2 example_datagrams))" .
  from t [THEN conjunct2, THEN conjunct2, THEN spec, THEN mp, OF one, THEN conjunct2, unfolded Suc_1]
  have "length (callback_log (arrivals echo ?srv (take 2 example_datagrams)))
          = length (callback_log (arrivals echo ?srv (take 1 example_datagrams)))
              + (if transport_error (example_datagrams ! 1) then 0 else 1)" .
  with e have skipped: "length (callback_log (arrivals echo ?srv (take 2 example_datagrams)))
                   = length (callback_log (arrivals echo ?srv (take 1 example_datagrams)))"
    by (simp only: if_True add_0_right)
  from r total armed skipped show ?thesis by blast
qed

end
